theory Spec2Isabelle
  imports Complex_Main "HOL-Library.AList"
begin

section \<open>Python values\<close>

text \<open>
  The values that travel through \<^verbatim>\<open>app.py\<close> are the ones Python's \<^verbatim>\<open>json\<close> module
  produces: \<^verbatim>\<open>None\<close>, booleans, unbounded integers, floats, strings, lists and
  dictionaries. A float is its exact rational value, or one of the three special values
  that \<^verbatim>\<open>json.loads\<close> accepts. A string is a list of characters, each a code point below
  256, which covers every literal of the source (\<open>CHR 0xF3\<close> is the accented o). A
  dictionary is an association list in insertion order whose keys are distinct; looking
  a key up is \<^const>\<open>map_of\<close>, and storing under a key is \<^const>\<open>AList.update\<close>, which
  replaces the value in place when the key is present and appends the pair otherwise,
  as a Python \<^verbatim>\<open>dict\<close> does.
\<close>

datatype pyfloat = Finite rat | PosInf | NegInf | NaN

datatype json =
    JNull
  | JBool bool
  | JInt int
  | JFloat pyfloat
  | JStr string
  | JArr "json list"
  | JObj "(string \<times> json) list"

text \<open>\<^verbatim>\<open>type(v).__name__\<close>, as it appears in the interpreter's error messages.\<close>

fun type_name :: "json \<Rightarrow> string" where
  "type_name JNull = ''NoneType''"
| "type_name (JBool b) = ''bool''"
| "type_name (JInt i) = ''int''"
| "type_name (JFloat f) = ''float''"
| "type_name (JStr s) = ''str''"
| "type_name (JArr xs) = ''list''"
| "type_name (JObj d) = ''dict''"

definition quoted :: "string \<Rightarrow> string" where
  "quoted s = CHR 0x27 # s @ [CHR 0x27]"

text \<open>\<^verbatim>\<open>str(n)\<close> for an integer: its decimal digits, with a minus sign when negative.\<close>

definition digit_char :: "nat \<Rightarrow> char" where
  "digit_char d = ''0123456789'' ! d"

function str_nat :: "nat \<Rightarrow> string" where
  "str_nat n = (if n < 10 then [digit_char n] else str_nat (n div 10) @ [digit_char (n mod 10)])"
  by pat_completeness auto
termination
  by (relation "measure (\<lambda>n. n)") auto

declare str_nat.simps [simp del]

definition str_int :: "int \<Rightarrow> string" where
  "str_int i = (if i < 0 then CHR ''-'' # str_nat (nat (- i)) else str_nat (nat i))"

text \<open>\<^verbatim>\<open>sub in s\<close> on strings: \<open>sub\<close> occurs in \<open>s\<close> as a contiguous piece.\<close>

fun str_contains :: "string \<Rightarrow> string \<Rightarrow> bool" where
  "str_contains sub [] = (sub = [])"
| "str_contains sub (c # cs) = (take (length sub) (c # cs) = sub \<or> str_contains sub cs)"

section \<open>Exceptions\<close>

text \<open>
  An exception is its class and its text \<^verbatim>\<open>str(e)\<close>. \<open>RequestException\<close> stands for
  \<^verbatim>\<open>requests.exceptions.RequestException\<close> and its subclasses (timeouts, connection
  errors), \<open>HTTPException c\<close> for a werkzeug HTTP error with status code \<open>c\<close>,
  \<open>OtherException\<close> for any class the source never names. A computation that may raise
  returns \<open>exn + 'a\<close>, with \<open>Inl\<close> the exception.
\<close>

datatype exn_class =
    RequestException
  | HTTPException int
  | AttributeError
  | TypeError
  | KeyError
  | OtherException

datatype exn = Exn (exn_class: exn_class) (str_e: string)

definition no_attribute :: "string \<Rightarrow> string \<Rightarrow> exn" where
  "no_attribute tn attr =
     Exn AttributeError (quoted tn @ '' object has no attribute '' @ quoted attr)"

text \<open>\<^verbatim>\<open>v.get(k, dflt)\<close>: only a dictionary has the method.\<close>

fun py_get :: "json \<Rightarrow> string \<Rightarrow> json \<Rightarrow> exn + json" where
  "py_get (JObj d) k dflt = Inr (case map_of d k of None \<Rightarrow> dflt | Some v \<Rightarrow> v)"
| "py_get v k dflt = Inl (no_attribute (type_name v) ''get'')"

text \<open>\<^verbatim>\<open>len(v)\<close>: strings, lists and dictionaries have a length.\<close>

fun py_len :: "json \<Rightarrow> exn + nat" where
  "py_len (JStr s) = Inr (length s)"
| "py_len (JArr xs) = Inr (length xs)"
| "py_len (JObj d) = Inr (length d)"
| "py_len v = Inl (Exn TypeError (''object of type '' @ quoted (type_name v) @ '' has no len()''))"

text \<open>
  \<^verbatim>\<open>n <= v\<close> for an integer \<open>n\<close>: Python compares an integer with an integer, a boolean
  (\<^verbatim>\<open>True\<close> is 1) or a float (exactly, with every comparison against NaN false), and
  raises \<^verbatim>\<open>TypeError\<close> for the other types.
\<close>

fun float_ge :: "pyfloat \<Rightarrow> int \<Rightarrow> bool" where
  "float_ge (Finite q) n = (of_int n \<le> q)"
| "float_ge PosInf n = True"
| "float_ge NegInf n = False"
| "float_ge NaN n = False"

fun py_int_le :: "int \<Rightarrow> json \<Rightarrow> exn + bool" where
  "py_int_le n (JInt m) = Inr (n \<le> m)"
| "py_int_le n (JBool b) = Inr (n \<le> (if b then 1 else 0))"
| "py_int_le n (JFloat f) = Inr (float_ge f n)"
| "py_int_le n v =
     Inl (Exn TypeError (quoted ''<='' @ '' not supported between instances of ''
            @ quoted ''int'' @ '' and '' @ quoted (type_name v)))"

section \<open>The response envelope \<^verbatim>\<open>MKTResponse\<close>\<close>

record MKTResponse =
  EsError :: bool
  ErrorCode :: json
  Message :: json
  Result :: json

text \<open>
  The constructor with its four arguments given; \<^verbatim>\<open>success\<close> and \<^verbatim>\<open>error\<close> are the two
  static methods that call it.
\<close>

definition MKTResponse_init :: "bool \<Rightarrow> json \<Rightarrow> json \<Rightarrow> json \<Rightarrow> MKTResponse" where
  "MKTResponse_init es_error error_code message result =
     \<lparr>EsError = es_error, ErrorCode = error_code, Message = message, Result = result\<rparr>"

definition to_dict :: "MKTResponse \<Rightarrow> json" where
  "to_dict self =
     JObj [(''EsError'', JBool (EsError self)),
           (''ErrorCode'', ErrorCode self),
           (''Message'', Message self),
           (''Result'', Result self)]"

text \<open>The default of \<^verbatim>\<open>success\<close>'s \<^verbatim>\<open>message\<close> parameter.\<close>

definition success_message :: json where
  "success_message = JStr (''Operaci'' @ [CHR 0xF3] @ ''n exitosa'')"

definition success :: "json \<Rightarrow> json \<Rightarrow> MKTResponse" where
  "success result message = MKTResponse_init False (JStr ''0'') message result"

definition error :: "json \<Rightarrow> json \<Rightarrow> json \<Rightarrow> MKTResponse" where
  "error error_code message result = MKTResponse_init True error_code message result"

section \<open>The spreadsheet service\<close>

text \<open>
  The gspread objects are what the source calls on them: a worksheet has a title and
  the cell values \<^verbatim>\<open>get_all_values()\<close> returns, as rows of strings; a spreadsheet hands
  out worksheets by name or by index; a client opens a spreadsheet by URL or by key.
  Each call may raise.
\<close>

record gs_worksheet =
  title :: string
  get_all_values :: "exn + string list list"

record gs_spreadsheet =
  worksheet :: "string \<Rightarrow> exn + gs_worksheet"
  get_worksheet :: "nat \<Rightarrow> exn + gs_worksheet"

record gs_client =
  open_by_url :: "string \<Rightarrow> exn + gs_spreadsheet"
  open_by_key :: "string \<Rightarrow> exn + gs_spreadsheet"

record GoogleSheetsService =
  credentials_file :: string
  client :: "gs_client option"
  scopes :: "string list"

definition GoogleSheetsService_init :: "string \<Rightarrow> GoogleSheetsService" where
  "GoogleSheetsService_init cf =
     \<lparr>credentials_file = cf,
      client = None,
      scopes = [''https://www.googleapis.com/auth/spreadsheets.readonly'',
                ''https://www.googleapis.com/auth/drive.readonly'']\<rparr>"

text \<open>The default of \<^verbatim>\<open>__init__\<close>'s \<^verbatim>\<open>credentials_file\<close> parameter.\<close>

definition default_credentials_file :: string where
  "default_credentials_file = ''credentials.json''"

text \<open>
  The inner loop of \<^verbatim>\<open>get_sheet_data\<close>: one store into \<^verbatim>\<open>row_dict\<close> for each pair of
  \<^verbatim>\<open>enumerate(headers)\<close>, from the left.
\<close>

definition cell :: "string list \<Rightarrow> nat \<Rightarrow> json" where
  "cell row i = JStr (if i < length row then row ! i else '''')"

fun store :: "string list \<Rightarrow> (string \<times> json) list \<Rightarrow> nat \<times> string \<Rightarrow> (string \<times> json) list" where
  "store row row_dict (i, header) = AList.update header (cell row i) row_dict"

definition row_dict :: "string list \<Rightarrow> string list \<Rightarrow> (string \<times> json) list" where
  "row_dict headers row = foldl (store row) [] (List.enumerate 0 headers)"

text \<open>The outer loop: one dictionary appended to \<^verbatim>\<open>data_dicts\<close> for each row.\<close>

definition data_dicts :: "string list \<Rightarrow> string list list \<Rightarrow> json list" where
  "data_dicts headers rows = foldl (\<lambda>acc row. acc @ [JObj (row_dict headers row)]) [] rows"

text \<open>
  What \<^verbatim>\<open>get_sheet_data\<close> builds from the worksheet's title and values, from the
  assignment of \<^verbatim>\<open>errorResponse\<close> on.
\<close>

definition sheet_data :: "string \<Rightarrow> string list list \<Rightarrow> json" where
  "sheet_data ttl all_values =
     (case all_values of
        [] \<Rightarrow>
          JObj [(''headers'', JArr []),
                (''total'', JInt 0),
                (''errorResponse'', to_dict (error (JInt (- 1)) (JStr ''sin datos'') JNull))]
      | headers # rows \<Rightarrow>
          JObj [(''sheet_name'', JStr ttl),
                (''headers'', JArr (map JStr headers)),
                (''inventoryList'', JArr (data_dicts headers rows)),
                (''errorResponse'', to_dict (success (JStr ''OK'') success_message)),
                (''total'', JInt (int (length rows)))])"

definition get_sheet_data_try ::
  "GoogleSheetsService \<Rightarrow> string \<Rightarrow> string option \<Rightarrow> exn + json" where
  "get_sheet_data_try self sheet_url worksheet_name =
     (case (if str_contains ''docs.google.com'' sheet_url
            then (case client self of
                    None \<Rightarrow> Inl (no_attribute ''NoneType'' ''open_by_url'')
                  | Some c \<Rightarrow> open_by_url c sheet_url)
            else (case client self of
                    None \<Rightarrow> Inl (no_attribute ''NoneType'' ''open_by_key'')
                  | Some c \<Rightarrow> open_by_key c sheet_url)) of
        Inl e \<Rightarrow> Inl e
      | Inr sheet \<Rightarrow>
          (case (case worksheet_name of
                   None \<Rightarrow> get_worksheet sheet 0
                 | Some name \<Rightarrow> if name \<noteq> [] then worksheet sheet name else get_worksheet sheet 0) of
             Inl e \<Rightarrow> Inl e
           | Inr ws \<Rightarrow>
               (case get_all_values ws of
                  Inl e \<Rightarrow> Inl e
                | Inr all_values \<Rightarrow> Inr (sheet_data (title ws) all_values))))"

definition get_sheet_data :: "GoogleSheetsService \<Rightarrow> string \<Rightarrow> string option \<Rightarrow> json" where
  "get_sheet_data self sheet_url worksheet_name =
     (case get_sheet_data_try self sheet_url worksheet_name of
        Inl e \<Rightarrow> JObj [(''error'', JStr (str_e e))]
      | Inr r \<Rightarrow> r)"

section \<open>The application and its surroundings\<close>

text \<open>
  \<^verbatim>\<open>app.config\<close> is read, never written: a dictionary of settings, where subscripting
  a missing key raises \<^verbatim>\<open>KeyError\<close>, whose text is the key's \<^verbatim>\<open>repr\<close>.
\<close>

type_synonym app_config = "string \<rightharpoonup> string"

definition config_getitem :: "app_config \<Rightarrow> string \<Rightarrow> exn + string" where
  "config_getitem cfg k = (case cfg k of None \<Rightarrow> Inl (Exn KeyError (quoted k)) | Some v \<Rightarrow> Inr v)"

text \<open>
  The upstream service is what \<^verbatim>\<open>requests.get(url, timeout=...)\<close> gives for each URL:
  an exception, or a response with its status code and the outcome of its \<^verbatim>\<open>json()\<close>
  method, which raises when the body is not a JSON document.
\<close>

record http_response =
  status_code :: int
  json_body :: "exn + json"

type_synonym upstream = "string \<Rightarrow> exn + http_response"

text \<open>
  The incoming request: its method (\<open>request_method\<close>), its path, and the outcome of
  \<^verbatim>\<open>request.get_json()\<close>, which raises an HTTP error on a body it cannot parse.
\<close>

record request =
  request_method :: string
  path :: string
  get_json :: "exn + json"

text \<open>
  A view returns the pair of a body and a status; \<^verbatim>\<open>jsonify\<close> is taken as the identity
  on the value it is given, so a body is the value itself, not its serialisation.
\<close>

type_synonym view_result = "json \<times> int"

subsection \<open>\<^verbatim>\<open>get_node_config\<close>\<close>

definition get_node_config_try :: "app_config \<Rightarrow> upstream \<Rightarrow> exn + view_result" where
  "get_node_config_try cfg requests_get =
     (case config_getitem cfg ''NODE_API_URL'' of
        Inl e \<Rightarrow> Inl e
      | Inr node_url \<Rightarrow>
          (case requests_get (node_url @ ''/api/config'') of
             Inl e \<Rightarrow> Inl e
           | Inr response \<Rightarrow>
               if status_code response = 200
               then (case json_body response of
                       Inl e \<Rightarrow> Inl e
                     | Inr j \<Rightarrow> Inr (JObj [(''success'', JBool True), (''node_config'', j)], 200))
               else Inr (JObj [(''success'', JBool False),
                               (''error'', JStr (''Node.js respondi'' @ [CHR 0xF3] @ '' con status ''
                                                  @ str_int (status_code response)))],
                         status_code response)))"

text \<open>
  The \<^verbatim>\<open>except\<close> clause catches \<^verbatim>\<open>RequestException\<close> only; any other exception leaves the
  view.
\<close>

definition get_node_config :: "app_config \<Rightarrow> upstream \<Rightarrow> exn + view_result" where
  "get_node_config cfg requests_get =
     (case get_node_config_try cfg requests_get of
        Inl e \<Rightarrow>
          if exn_class e = RequestException
          then Inr (JObj [(''success'', JBool False),
                          (''error'', JStr (''Error al conectar con Node.js: '' @ str_e e))],
                    503)
          else Inl e
      | Inr r \<Rightarrow> Inr r)"

subsection \<open>\<^verbatim>\<open>combined_process\<close>\<close>

text \<open>\<^verbatim>\<open>len(data.get('items', []))\<close>, which the source evaluates twice.\<close>

definition items_len :: "json \<Rightarrow> exn + nat" where
  "items_len data =
     (case py_get data ''items'' (JArr []) of Inl e \<Rightarrow> Inl e | Inr items \<Rightarrow> py_len items)"

definition combined_process_try :: "app_config \<Rightarrow> upstream \<Rightarrow> request \<Rightarrow> exn + view_result" where
  "combined_process_try cfg requests_get req =
     (case get_json req of
        Inl e \<Rightarrow> Inl e
      | Inr data \<Rightarrow>
     (case config_getitem cfg ''NODE_API_URL'' of
        Inl e \<Rightarrow> Inl e
      | Inr node_url \<Rightarrow>
     (case requests_get (node_url @ ''/api/config'') of
        Inl e \<Rightarrow> Inl e
      | Inr config_response \<Rightarrow>
          if status_code config_response \<noteq> 200
          then Inr (JObj [(''success'', JBool False),
                          (''error'', JStr (''No se pudo obtener configuraci'' @ [CHR 0xF3]
                                             @ ''n de Node.js''))],
                    503)
          else
     (case json_body config_response of
        Inl e \<Rightarrow> Inl e
      | Inr node_config \<Rightarrow>
     (case py_get node_config ''max_connections'' (JInt 100) of
        Inl e \<Rightarrow> Inl e
      | Inr max_items \<Rightarrow>
     (case items_len data of
        Inl e \<Rightarrow> Inl e
      | Inr items_processed \<Rightarrow>
     (case items_len data of
        Inl e \<Rightarrow> Inl e
      | Inr n \<Rightarrow>
     (case py_int_le (int n) max_items of
        Inl e \<Rightarrow> Inl e
      | Inr within_limits \<Rightarrow>
          Inr (JObj [(''success'', JBool True),
                     (''result'',
                        JObj [(''data'', data),
                              (''max_items_allowed'', max_items),
                              (''items_processed'', JInt (int items_processed)),
                              (''within_limits'', JBool within_limits)]),
                     (''node_config_used'', node_config)],
               200)))))))))"

text \<open>The \<^verbatim>\<open>except\<close> clause catches every exception and answers with its text.\<close>

definition combined_process :: "app_config \<Rightarrow> upstream \<Rightarrow> request \<Rightarrow> exn + view_result" where
  "combined_process cfg requests_get req =
     (case combined_process_try cfg requests_get req of
        Inl e \<Rightarrow> Inr (JObj [(''success'', JBool False), (''error'', JStr (str_e e))], 500)
      | Inr r \<Rightarrow> Inr r)"

subsection \<open>Middleware, error handlers and the state of the process\<close>

text \<open>
  What outlives a request is the logger's output and the spreadsheet service object
  created once by \<^verbatim>\<open>create_app\<close>. A log record is its level and text; the record made
  from \<^verbatim>\<open>traceback.format_exc()\<close> is kept as the exception it formats.
\<close>

datatype log_record = INFO string | ERROR string | ERROR_format_exc exn

record app_state =
  logger :: "log_record list"
  sheets_service :: GoogleSheetsService

record response =
  body :: json
  status :: int
  headers :: "(string \<times> string) list"

definition log_request :: "request \<Rightarrow> app_state \<Rightarrow> app_state" where
  "log_request req s = s\<lparr>logger := logger s @ [INFO (request_method req @ '' '' @ path req)]\<rparr>"

definition after_request :: "response \<Rightarrow> response" where
  "after_request r =
     r\<lparr>headers :=
         AList.update ''X-XSS-Protection'' ''1; mode=block''
           (AList.update ''X-Frame-Options'' ''DENY''
             (AList.update ''X-Content-Type-Options'' ''nosniff'' (headers r)))\<rparr>"

definition not_found :: "request \<Rightarrow> view_result" where
  "not_found req =
     (JObj [(''success'', JBool False),
            (''error'', JStr ''Endpoint no encontrado''),
            (''path'', JStr (path req))],
      404)"

definition internal_error :: "exn \<Rightarrow> app_state \<Rightarrow> view_result \<times> app_state" where
  "internal_error err s =
     ((JObj [(''success'', JBool False), (''error'', JStr ''Error interno del servidor'')], 500),
      s\<lparr>logger := logger s @ [ERROR (''Error 500: '' @ str_e err)]\<rparr>)"

definition generic_message :: string where
  "generic_message = ''Error inesperado en el servidor''"

definition handle_exception :: "exn \<Rightarrow> app_state \<Rightarrow> view_result \<times> app_state" where
  "handle_exception e s =
     ((JObj [(''success'', JBool False), (''error'', JStr generic_message)], 500),
      s\<lparr>logger := logger s @ [ERROR (''Excepci'' @ [CHR 0xF3] @ ''n no manejada: '' @ str_e e),
                              ERROR_format_exc e]\<rparr>)"

text \<open>
  The framework picks the handler registered for an HTTP error's status code before
  the one registered for a class: the 404 and 500 handlers take those two HTTP errors,
  the handler registered for \<^verbatim>\<open>Exception\<close> takes every other exception.
\<close>

definition handle_user_exception ::
  "request \<Rightarrow> exn \<Rightarrow> app_state \<Rightarrow> view_result \<times> app_state" where
  "handle_user_exception req e s =
     (if exn_class e = HTTPException 404 then (not_found req, s)
      else if exn_class e = HTTPException 500 then internal_error e s
      else handle_exception e s)"

text \<open>
  One request to a view: the \<^verbatim>\<open>before_request\<close> hook, the view, the error handler when
  the view raises, the response made from the view's pair, the \<^verbatim>\<open>after_request\<close> hook.
  The response is the pair as the view returned it: what the framework then leaves out
  on the wire (the body of a 1xx, 204 or 304 answer) is not part of it. The log holds
  every record handed to the logger, whether or not the logger's level lets it out.
\<close>

datatype endpoint = GetNodeConfig | CombinedProcess

definition view :: "endpoint \<Rightarrow> app_config \<Rightarrow> upstream \<Rightarrow> request \<Rightarrow> exn + view_result" where
  "view ep cfg requests_get req =
     (case ep of
        GetNodeConfig \<Rightarrow> get_node_config cfg requests_get
      | CombinedProcess \<Rightarrow> combined_process cfg requests_get req)"

definition make_response :: "view_result \<Rightarrow> response" where
  "make_response r =
     \<lparr>body = fst r, status = snd r, headers = [(''Content-Type'', ''application/json'')]\<rparr>"

definition handle_request ::
  "endpoint \<Rightarrow> app_config \<Rightarrow> upstream \<Rightarrow> request \<Rightarrow> app_state \<Rightarrow> response \<times> app_state" where
  "handle_request ep cfg requests_get req s =
     (let s1 = log_request req s;
          (r, s2) = (case view ep cfg requests_get req of
                       Inl e \<Rightarrow> handle_user_exception req e s1
                     | Inr r \<Rightarrow> (r, s1))
      in (after_request (make_response r), s2))"

text \<open>The state \<^verbatim>\<open>create_app\<close> leaves behind: nothing logged, the service not connected.\<close>

definition create_app :: app_state where
  "create_app = \<lparr>logger = [], sheets_service = GoogleSheetsService_init default_credentials_file\<rparr>"

section \<open>Vocabulary of the properties\<close>

text \<open>
  The number a value denotes when it is an integer or a finite float; the other values
  denote none.
\<close>

definition numeric_value :: "json \<Rightarrow> rat option" where
  "numeric_value v =
     (case v of JInt m \<Rightarrow> Some (of_int m) | JFloat (Finite q) \<Rightarrow> Some q | _ \<Rightarrow> None)"

text \<open>\<^verbatim>\<open>s.endswith(suffix)\<close>.\<close>

definition str_endswith :: "string \<Rightarrow> string \<Rightarrow> bool" where
  "str_endswith s suffix =
     (length suffix \<le> length s \<and> drop (length s - length suffix) s = suffix)"

text \<open>The keys of a dictionary, in order; a value that is no dictionary has none.\<close>

fun dict_keys :: "json \<Rightarrow> string list" where
  "dict_keys (JObj d) = map fst d"
| "dict_keys v = []"

text \<open>
  The scope Google defines for reading the metadata of drive files and nothing else; the
  source never names it.
\<close>

definition drive_metadata_readonly_scope :: string where
  "drive_metadata_readonly_scope = ''https://www.googleapis.com/auth/drive.metadata.readonly''"

definition envelope_fields :: "string list" where
  "envelope_fields = [''EsError'', ''ErrorCode'', ''Message'', ''Result'']"

subsection \<open>Concrete inputs\<close>

definition example_config :: app_config where
  "example_config = [''NODE_API_URL'' \<mapsto> ''http://node:3000'']"

text \<open>An upstream that answers the configuration URL with the given status and document.\<close>

definition example_upstream :: "int \<Rightarrow> json \<Rightarrow> upstream" where
  "example_upstream st j url =
     (if url = ''http://node:3000/api/config''
      then Inr \<lparr>status_code = st, json_body = Inr j\<rparr>
      else Inl (Exn RequestException ''connection refused''))"

definition example_request :: "json \<Rightarrow> request" where
  "example_request data =
     \<lparr>request_method = ''POST'', path = ''/api/axs/belfort/combined-process'', get_json = Inr data\<rparr>"


section \<open>The spreadsheet service and its scopes\<close>

text \<open>
  Claim C5, amended. The spreadsheet service is initialised with exactly two OAuth
  scopes, both read-only: the first for reading spreadsheets, the second the drive's
  general read-only scope \<^verbatim>\<open>drive.readonly\<close>, which is not the metadata-only scope
  \<^verbatim>\<open>drive.metadata.readonly\<close>; neither scope is. It keeps the path of the credential
  file it is given, holds no client yet, and the service the application creates uses
  the default path \<^verbatim>\<open>credentials.json\<close>.
\<close>

theorem sheets_service_two_readonly_scopes:
  "scopes (GoogleSheetsService_init cf) =
     [''https://www.googleapis.com/auth/spreadsheets.readonly'',
      ''https://www.googleapis.com/auth/drive.readonly'']
   \<and> length (scopes (GoogleSheetsService_init cf)) = 2
   \<and> map (\<lambda>sc. str_endswith sc ''.readonly'') (scopes (GoogleSheetsService_init cf)) = [True, True]
   \<and> str_contains ''/auth/spreadsheets'' (scopes (GoogleSheetsService_init cf) ! 0)
   \<and> str_contains ''/auth/drive'' (scopes (GoogleSheetsService_init cf) ! 1)
   \<and> map (\<lambda>sc. sc = drive_metadata_readonly_scope) (scopes (GoogleSheetsService_init cf))
         = [False, False]
   \<and> map (str_contains ''metadata'') (scopes (GoogleSheetsService_init cf)) = [False, False]
   \<and> credentials_file (GoogleSheetsService_init cf) = cf
   \<and> client (GoogleSheetsService_init cf) = None
   \<and> sheets_service create_app = GoogleSheetsService_init ''credentials.json''"
  by (simp add: GoogleSheetsService_init_def str_endswith_def create_app_def
      default_credentials_file_def drive_metadata_readonly_scope_def)

theorem drive_scope_is_not_metadata_scope:
  "scopes (sheets_service create_app) ! 1 = ''https://www.googleapis.com/auth/drive.readonly''
   \<and> scopes (sheets_service create_app) ! 1 \<noteq> drive_metadata_readonly_scope
   \<and> drive_metadata_readonly_scope \<notin> set (scopes (sheets_service create_app))"
  by (simp add: GoogleSheetsService_init_def create_app_def drive_metadata_readonly_scope_def)

section \<open>Configuration retrieval\<close>

text \<open>
  Claim C2. When the upstream answers the configuration GET with status 200 and a JSON
  document, the configuration-retrieval endpoint returns HTTP 200, the success
  indicator set, and that document embedded as it came, whatever it is.
\<close>

theorem get_node_config_passes_payload:
  assumes "cfg ''NODE_API_URL'' = Some node_url"
    and "requests_get (node_url @ ''/api/config'') = Inr upstream_response"
    and "status_code upstream_response = 200"
    and "json_body upstream_response = Inr payload"
  shows "get_node_config cfg requests_get =
           Inr (JObj [(''success'', JBool True), (''node_config'', payload)], 200)
         \<and> body (fst (handle_request GetNodeConfig cfg requests_get req s)) =
             JObj [(''success'', JBool True), (''node_config'', payload)]
         \<and> status (fst (handle_request GetNodeConfig cfg requests_get req s)) = 200"
proof -
  have v: "get_node_config cfg requests_get =
           Inr (JObj [(''success'', JBool True), (''node_config'', payload)], 200)"
    using assms by (simp add: get_node_config_def get_node_config_try_def config_getitem_def)
  then show ?thesis
    by (simp add: handle_request_def view_def make_response_def after_request_def)
qed

theorem get_node_config_passes_payload_witness:
  "example_config ''NODE_API_URL'' = Some ''http://node:3000''
   \<and> get_node_config example_config (example_upstream 200 (JObj [(''max_connections'', JInt 2)])) =
     Inr (JObj [(''success'', JBool True),
                (''node_config'', JObj [(''max_connections'', JInt 2)])], 200)"
  using get_node_config_passes_payload
    [of example_config "''http://node:3000''"
        "example_upstream 200 (JObj [(''max_connections'', JInt 2)])"
        "\<lparr>status_code = 200, json_body = Inr (JObj [(''max_connections'', JInt 2)])\<rparr>"
        "JObj [(''max_connections'', JInt 2)]"]
  by (simp add: example_config_def example_upstream_def)

text \<open>
  Claim C4. When the upstream answers with a status other than 200, the endpoint
  returns the failure indicator, a message naming that status, and that status as its
  own; when the request itself fails, it returns the failure indicator, the connection
  error's text, and status 503. Neither status is 200.
\<close>

theorem get_node_config_failure_envelope:
  assumes "cfg ''NODE_API_URL'' = Some node_url"
  shows "(requests_get (node_url @ ''/api/config'') = Inr upstream_response
            \<and> status_code upstream_response \<noteq> 200 \<longrightarrow>
            get_node_config cfg requests_get =
              Inr (JObj [(''success'', JBool False),
                         (''error'', JStr (''Node.js respondi'' @ [CHR 0xF3] @ '' con status ''
                                            @ str_int (status_code upstream_response)))],
                   status_code upstream_response))
       \<and> (requests_get (node_url @ ''/api/config'') = Inl e \<and> exn_class e = RequestException \<longrightarrow>
            get_node_config cfg requests_get =
              Inr (JObj [(''success'', JBool False),
                         (''error'', JStr (''Error al conectar con Node.js: '' @ str_e e))],
                   503))"
  using assms by (simp add: get_node_config_def get_node_config_try_def config_getitem_def)

theorem get_node_config_failure_envelope_witness:
  "get_node_config example_config (example_upstream 404 JNull) =
     Inr (JObj [(''success'', JBool False),
                (''error'', JStr (''Node.js respondi'' @ [CHR 0xF3] @ '' con status 404''))], 404)
   \<and> get_node_config example_config (\<lambda>url. Inl (Exn RequestException ''timed out'')) =
     Inr (JObj [(''success'', JBool False),
                (''error'', JStr ''Error al conectar con Node.js: timed out'')], 503)"
  using get_node_config_failure_envelope
      [of example_config "''http://node:3000''" "example_upstream 404 JNull"
          "\<lparr>status_code = 404, json_body = Inr JNull\<rparr>" "Exn RequestException ''timed out''"]
    get_node_config_failure_envelope
      [of example_config "''http://node:3000''" "\<lambda>url. Inl (Exn RequestException ''timed out'')"
          "\<lparr>status_code = 404, json_body = Inr JNull\<rparr>" "Exn RequestException ''timed out''"]
  by (simp add: example_config_def example_upstream_def str_int_def str_nat.simps digit_char_def)

section \<open>Combined processing\<close>

lemma py_int_le_numeric:
  "numeric_value v = Some M \<Longrightarrow> py_int_le n v = Inr (of_int n \<le> M)"
  by (cases v) (auto simp: numeric_value_def split: pyfloat.splits)

text \<open>
  Claim C1. Let the submitted body be an object whose \<^verbatim>\<open>items\<close> is an array of length
  \<open>L\<close>, and let the upstream answer 200 with an object whose limit, the value of
  \<^verbatim>\<open>max_connections\<close> or 100 when the key is absent, denotes the number \<open>M\<close>. Then the
  endpoint answers 200 and the \<^verbatim>\<open>within_limits\<close> field of its result is true exactly
  when \<open>L \<le> M\<close>.
\<close>

theorem within_limits_iff_count_le_limit:
  assumes "get_json req = Inr (JObj d)"
    and "map_of d ''items'' = Some (JArr items)"
    and "cfg ''NODE_API_URL'' = Some node_url"
    and "requests_get (node_url @ ''/api/config'') = Inr config_response"
    and "status_code config_response = 200"
    and "json_body config_response = Inr (JObj c)"
    and "max_items = (case map_of c ''max_connections'' of None \<Rightarrow> JInt 100 | Some v \<Rightarrow> v)"
    and "numeric_value max_items = Some M"
  shows "combined_process cfg requests_get req =
           Inr (JObj [(''success'', JBool True),
                      (''result'',
                         JObj [(''data'', JObj d),
                               (''max_items_allowed'', max_items),
                               (''items_processed'', JInt (int (length items))),
                               (''within_limits'', JBool (of_nat (length items) \<le> M))]),
                      (''node_config_used'', JObj c)],
                200)"
proof -
  have l: "items_len (JObj d) = Inr (length items)"
    using assms(2) by (simp add: items_len_def)
  have g: "py_get (JObj c) ''max_connections'' (JInt 100) = Inr max_items"
    using assms(7) by simp
  have w: "py_int_le (int (length items)) max_items = Inr (of_nat (length items) \<le> M)"
    using py_int_le_numeric [OF assms(8), of "int (length items)"] by simp
  show ?thesis
    unfolding combined_process_def combined_process_try_def
    using assms(1,3,4,5,6) l g w by (simp add: config_getitem_def)
qed

theorem within_limits_iff_count_le_limit_witness:
  "numeric_value (JInt 2) = Some 2
   \<and> combined_process example_config (example_upstream 200 (JObj [(''max_connections'', JInt 2)]))
     (example_request (JObj [(''items'', JArr [JInt 7, JInt 8, JInt 9])])) =
     Inr (JObj [(''success'', JBool True),
                (''result'',
                   JObj [(''data'', JObj [(''items'', JArr [JInt 7, JInt 8, JInt 9])]),
                         (''max_items_allowed'', JInt 2),
                         (''items_processed'', JInt 3),
                         (''within_limits'', JBool False)]),
                (''node_config_used'', JObj [(''max_connections'', JInt 2)])],
          200)"
  using within_limits_iff_count_le_limit
    [of "example_request (JObj [(''items'', JArr [JInt 7, JInt 8, JInt 9])])"
        "[(''items'', JArr [JInt 7, JInt 8, JInt 9])]" "[JInt 7, JInt 8, JInt 9]"
        example_config "''http://node:3000''"
        "example_upstream 200 (JObj [(''max_connections'', JInt 2)])"
        "\<lparr>status_code = 200, json_body = Inr (JObj [(''max_connections'', JInt 2)])\<rparr>"
        "[(''max_connections'', JInt 2)]" "JInt 2" 2]
  by (simp add: example_config_def example_upstream_def example_request_def numeric_value_def)

text \<open>
  Claim C8. Whenever the combined-process endpoint answers 200, the request carried a
  body, the upstream delivered a configuration document, and the response holds the
  summary (the body echoed, the limit used, the item count, the within-limits flag)
  next to that configuration document, unchanged.
\<close>

theorem combined_process_returns_raw_config:
  assumes "combined_process cfg requests_get req = Inr (b, 200)"
  shows "\<exists>data node_url config_response node_config max_items n within_limits.
           get_json req = Inr data
         \<and> cfg ''NODE_API_URL'' = Some node_url
         \<and> requests_get (node_url @ ''/api/config'') = Inr config_response
         \<and> json_body config_response = Inr node_config
         \<and> py_get node_config ''max_connections'' (JInt 100) = Inr max_items
         \<and> items_len data = Inr n
         \<and> py_int_le (int n) max_items = Inr within_limits
         \<and> b = JObj [(''success'', JBool True),
                     (''result'',
                        JObj [(''data'', data),
                              (''max_items_allowed'', max_items),
                              (''items_processed'', JInt (int n)),
                              (''within_limits'', JBool within_limits)]),
                     (''node_config_used'', node_config)]"
  using assms
  unfolding combined_process_def combined_process_try_def config_getitem_def
  by (auto split: sum.splits option.splits if_splits)

theorem combined_process_returns_raw_config_witness:
  "combined_process example_config (example_upstream 200 (JObj [(''name'', JStr ''n1'')]))
       (example_request (JObj [])) =
     Inr (JObj [(''success'', JBool True),
                (''result'',
                   JObj [(''data'', JObj []),
                         (''max_items_allowed'', JInt 100),
                         (''items_processed'', JInt 0),
                         (''within_limits'', JBool True)]),
                (''node_config_used'', JObj [(''name'', JStr ''n1'')])], 200)
   \<and> (\<exists>config_response.
         example_upstream 200 (JObj [(''name'', JStr ''n1'')]) ''http://node:3000/api/config''
           = Inr config_response
       \<and> json_body config_response = Inr (JObj [(''name'', JStr ''n1'')]))"
proof -
  have run: "combined_process example_config (example_upstream 200 (JObj [(''name'', JStr ''n1'')]))
       (example_request (JObj [])) =
     Inr (JObj [(''success'', JBool True),
                (''result'',
                   JObj [(''data'', JObj []),
                         (''max_items_allowed'', JInt 100),
                         (''items_processed'', JInt 0),
                         (''within_limits'', JBool True)]),
                (''node_config_used'', JObj [(''name'', JStr ''n1'')])], 200)"
    by (simp add: combined_process_def combined_process_try_def config_getitem_def
        example_config_def example_upstream_def example_request_def items_len_def)
  show ?thesis
    using run combined_process_returns_raw_config [OF run]
    by (auto simp: example_config_def)
qed

section \<open>Flattening a spreadsheet\<close>

text \<open>The outer loop builds one dictionary for each data row, in order.\<close>

lemma data_dicts_acc:
  "foldl (\<lambda>acc row. acc @ [JObj (row_dict hdrs row)]) acc rows =
     acc @ map (\<lambda>row. JObj (row_dict hdrs row)) rows"
  by (induction rows arbitrary: acc) simp_all

lemma data_dicts_map:
  "data_dicts hdrs rows = map (\<lambda>row. JObj (row_dict hdrs row)) rows"
  by (simp add: data_dicts_def data_dicts_acc)

lemma sheet_data_rows:
  "sheet_data ttl (hdrs # rows) =
     JObj [(''sheet_name'', JStr ttl),
           (''headers'', JArr (map JStr hdrs)),
           (''inventoryList'', JArr (map (\<lambda>row. JObj (row_dict hdrs row)) rows)),
           (''errorResponse'', to_dict (success (JStr ''OK'') success_message)),
           (''total'', JInt (int (length rows)))]"
  by (simp add: sheet_data_def data_dicts_map)

lemma get_sheet_data_try_values:
  assumes "get_sheet_data_try self sheet_url worksheet_name = Inr r"
  shows "\<exists>(ws::gs_worksheet) all_values.
           get_all_values ws = Inr all_values \<and> r = sheet_data (title ws) all_values"
  using assms unfolding get_sheet_data_try_def
  by (auto split: sum.splits)

text \<open>The inner loop, one store at a time.\<close>

lemma store_unfold: "store row d p = AList.update (snd p) (cell row (fst p)) d"
  by (cases p) simp

lemma snd_set_enumerate: "snd ` set (List.enumerate n xs) = set xs"
  by (metis map_snd_enumerate set_map)

lemma foldl_store_keys:
  "fst ` set (foldl (store row) d ps) = fst ` set d \<union> snd ` set ps"
  by (induction ps arbitrary: d) (auto simp: store_unfold AList.dom_update)

lemma foldl_store_distinct:
  "distinct (map fst d) \<Longrightarrow> distinct (map fst (foldl (store row) d ps))"
  by (induction ps arbitrary: d) (simp_all add: store_unfold AList.distinct_update)

lemma foldl_store_other:
  "h \<notin> snd ` set ps \<Longrightarrow> map_of (foldl (store row) d ps) h = map_of d h"
  by (induction ps arbitrary: d) (auto simp: store_unfold AList.update_conv')

lemma foldl_store_last:
  assumes "h \<notin> snd ` set post"
  shows "map_of (foldl (store row) d (pre @ (i, h) # post)) h = Some (cell row i)"
  using assms by (simp add: foldl_store_other) (simp add: AList.update_conv')

lemma update_fresh: "k \<notin> fst ` set d \<Longrightarrow> AList.update k v d = d @ [(k, v)]"
  by (induction d) auto

lemma foldl_store_fresh:
  "distinct (map snd ps) \<Longrightarrow> snd ` set ps \<inter> fst ` set d = {} \<Longrightarrow>
     foldl (store row) d ps = d @ map (\<lambda>p. (snd p, cell row (fst p))) ps"
proof (induction ps arbitrary: d)
  case Nil
  then show ?case by simp
next
  case (Cons p ps)
  have fresh: "snd p \<notin> fst ` set d" using Cons.prems(2) by auto
  have step: "store row d p = d @ [(snd p, cell row (fst p))]"
    by (simp add: store_unfold update_fresh [OF fresh])
  have "snd ` set ps \<inter> fst ` set (store row d p) = {}"
    using Cons.prems by (auto simp: step)
  with Cons.IH [of "store row d p"] Cons.prems(1) show ?case
    by (simp add: step)
qed

lemma foldl_store_cong:
  "(\<And>p. p \<in> set ps \<Longrightarrow> cell row (fst p) = cell row' (fst p)) \<Longrightarrow>
     foldl (store row) d ps = foldl (store row') d ps"
  by (induction ps arbitrary: d) (simp_all add: store_unfold)

lemma enumerate_split:
  assumes "i < length hdrs"
  shows "List.enumerate 0 hdrs =
           List.enumerate 0 (take i hdrs) @ (i, hdrs ! i)
             # List.enumerate (Suc i) (drop (Suc i) hdrs)"
proof -
  have "hdrs = take i hdrs @ hdrs ! i # drop (Suc i) hdrs"
    using assms by (simp add: id_take_nth_drop)
  then have "List.enumerate 0 hdrs =
      List.enumerate 0 (take i hdrs @ hdrs ! i # drop (Suc i) hdrs)" by simp
  also have "\<dots> = List.enumerate 0 (take i hdrs) @ (i, hdrs ! i)
      # List.enumerate (Suc i) (drop (Suc i) hdrs)"
    using assms by (simp add: enumerate_append_eq min_def)
  finally show ?thesis .
qed

lemma row_dict_keys: "fst ` set (row_dict hdrs row) = set hdrs"
  by (simp add: row_dict_def foldl_store_keys snd_set_enumerate)

lemma row_dict_distinct_keys: "distinct (map fst (row_dict hdrs row))"
  by (simp add: row_dict_def foldl_store_distinct)

lemma row_dict_last_occurrence:
  assumes "i < length hdrs" and "hdrs ! i \<notin> set (drop (Suc i) hdrs)"
  shows "map_of (row_dict hdrs row) (hdrs ! i) = Some (cell row i)"
proof -
  have "hdrs ! i \<notin> snd ` set (List.enumerate (Suc i) (drop (Suc i) hdrs))"
    using assms(2) by (simp add: snd_set_enumerate)
  then show ?thesis
    unfolding row_dict_def enumerate_split [OF assms(1)]
    by (rule foldl_store_last)
qed

lemma row_dict_distinct_headers:
  assumes "distinct hdrs"
  shows "row_dict hdrs row = zip hdrs (map (cell row) [0..<length hdrs])"
proof -
  have "row_dict hdrs row = map (\<lambda>p. (snd p, cell row (fst p))) (List.enumerate 0 hdrs)"
    using assms by (simp add: row_dict_def foldl_store_fresh)
  also have "\<dots> = zip hdrs (map (cell row) [0..<length hdrs])"
    by (simp add: enumerate_eq_zip zip_map2 zip_commute [of hdrs] map_prod_def case_prod_unfold)
  finally show ?thesis .
qed

lemma cell_take: "i < n \<Longrightarrow> cell (take n row) i = cell row i"
  by (simp add: cell_def)

lemma row_dict_take: "row_dict hdrs (take (length hdrs) row) = row_dict hdrs row"
  unfolding row_dict_def
  by (rule foldl_store_cong) (auto simp: in_set_enumerate_eq cell_take)

text \<open>
  Claim C3. For a sheet that is not empty, the first row is the header row and the
  result holds one record for each later row, in order. The keys of a record are the
  header names. A header position that no later position repeats maps its name to the
  row's cell at that position, and to the empty string when the row is too short to
  have one. When the header names are distinct this is every position, and the record
  is exactly the list of headers paired position by position with the padded row.
\<close>

theorem sheet_rows_paired_with_headers:
  "sheet_data ttl (hdrs # rows) =
     JObj [(''sheet_name'', JStr ttl),
           (''headers'', JArr (map JStr hdrs)),
           (''inventoryList'', JArr (map (\<lambda>row. JObj (row_dict hdrs row)) rows)),
           (''errorResponse'', to_dict (success (JStr ''OK'') success_message)),
           (''total'', JInt (int (length rows)))]
   \<and> fst ` set (row_dict hdrs row) = set hdrs
   \<and> (i < length hdrs \<and> hdrs ! i \<notin> set (drop (Suc i) hdrs) \<longrightarrow>
        map_of (row_dict hdrs row) (hdrs ! i) =
          Some (JStr (if i < length row then row ! i else [])))
   \<and> (distinct hdrs \<longrightarrow>
        row_dict hdrs row =
          zip hdrs (map (\<lambda>i. JStr (if i < length row then row ! i else [])) [0..<length hdrs]))"
proof -
  have a: "i < length hdrs \<and> hdrs ! i \<notin> set (drop (Suc i) hdrs) \<longrightarrow>
        map_of (row_dict hdrs row) (hdrs ! i) =
          Some (JStr (if i < length row then row ! i else []))"
    using row_dict_last_occurrence [of i hdrs row] by (simp add: cell_def)
  have b: "distinct hdrs \<longrightarrow>
        row_dict hdrs row =
          zip hdrs (map (\<lambda>i. JStr (if i < length row then row ! i else [])) [0..<length hdrs])"
    using row_dict_distinct_headers [of hdrs row] by (simp add: cell_def [abs_def])
  show ?thesis
    using a b sheet_data_rows [of ttl hdrs rows] row_dict_keys [of hdrs row] by blast
qed

theorem sheet_rows_paired_with_headers_witness:
  "(1::nat) < length [''sku'', ''qty'']
   \<and> [''sku'', ''qty''] ! 1 \<notin> set (drop (Suc 1) [''sku'', ''qty''])
   \<and> distinct [''sku'', ''qty'']
   \<and> map_of (row_dict [''sku'', ''qty''] [''A1'']) ''qty'' = Some (JStr [])
   \<and> row_dict [''sku'', ''qty''] [''A1''] = [(''sku'', JStr ''A1''), (''qty'', JStr [])]"
  using sheet_rows_paired_with_headers [of "''Hoja''" "[''sku'', ''qty'']" "[[''A1'']]" "[''A1'']" 1]
  by (simp add: upt_rec)

text \<open>
  Claim C10. When a header name stands at two positions and the later one is its last
  occurrence, the record maps the name to the cell at the later position; a record
  never holds a name twice. The cells of a row at positions past the header row's
  length do not reach the record: the record, and the whole result, are those of the
  rows cut to the header row's length.
\<close>

theorem duplicate_header_last_wins:
  "(i < j \<and> j < length hdrs \<and> hdrs ! i = hdrs ! j \<and> hdrs ! j \<notin> set (drop (Suc j) hdrs) \<longrightarrow>
      map_of (row_dict hdrs row) (hdrs ! i) =
        Some (JStr (if j < length row then row ! j else [])))
   \<and> distinct (map fst (row_dict hdrs row))
   \<and> row_dict hdrs row = row_dict hdrs (take (length hdrs) row)
   \<and> sheet_data ttl (hdrs # rows) = sheet_data ttl (hdrs # map (take (length hdrs)) rows)"
proof -
  have a: "i < j \<and> j < length hdrs \<and> hdrs ! i = hdrs ! j
      \<and> hdrs ! j \<notin> set (drop (Suc j) hdrs) \<longrightarrow>
      map_of (row_dict hdrs row) (hdrs ! i) =
        Some (JStr (if j < length row then row ! j else []))"
    using row_dict_last_occurrence [of j hdrs row] by (simp add: cell_def)
  have b: "sheet_data ttl (hdrs # rows) = sheet_data ttl (hdrs # map (take (length hdrs)) rows)"
    by (simp add: sheet_data_rows row_dict_take comp_def)
  show ?thesis
    using a b row_dict_distinct_keys [of hdrs row] row_dict_take [of hdrs row] by simp
qed

theorem duplicate_header_last_wins_witness:
  "(0::nat) < 2 \<and> 2 < length [''a'', ''b'', ''a'']
   \<and> [''a'', ''b'', ''a''] ! 0 = [''a'', ''b'', ''a''] ! 2
   \<and> [''a'', ''b'', ''a''] ! 2 \<notin> set (drop (Suc 2) [''a'', ''b'', ''a''])
   \<and> map_of (row_dict [''a'', ''b'', ''a''] [''1'', ''2'', ''3'', ''4'']) ''a'' = Some (JStr ''3'')
   \<and> row_dict [''a'', ''b'', ''a''] [''1'', ''2'', ''3'', ''4''] =
       row_dict [''a'', ''b'', ''a''] [''1'', ''2'', ''3'']"
  using duplicate_header_last_wins
    [of 0 2 "[''a'', ''b'', ''a'']" "[''1'', ''2'', ''3'', ''4'']" "''Hoja''" "[]"]
  by (simp add: row_dict_def cell_def)

section \<open>Response shapes\<close>

lemma get_node_config_shapes:
  assumes "get_node_config cfg requests_get = Inr (b, st)"
  shows "(\<exists>j. b = JObj [(''success'', JBool True), (''node_config'', j)] \<and> st = 200)
       \<or> (\<exists>m. b = JObj [(''success'', JBool False), (''error'', JStr m)] \<and> st \<noteq> 200)"
  using assms
  unfolding get_node_config_def get_node_config_try_def config_getitem_def
  by (auto split: sum.splits option.splits if_splits)

lemma combined_process_total: "\<exists>r. combined_process cfg requests_get req = Inr r"
  by (simp add: combined_process_def split: sum.splits)

lemma combined_process_shapes:
  assumes "combined_process cfg requests_get req = Inr (b, st)"
  shows "(\<exists>r j. b = JObj [(''success'', JBool True), (''result'', r), (''node_config_used'', j)]
            \<and> st = 200)
       \<or> (\<exists>m. b = JObj [(''success'', JBool False), (''error'', JStr m)]
            \<and> (st = 503 \<or> st = 500))"
  using assms
  unfolding combined_process_def combined_process_try_def config_getitem_def
  by (auto split: sum.splits option.splits if_splits)

text \<open>
  Claim C6, amended. Every envelope the response constructors produce carries the
  same four fields, error flag, error code, message and result, in that order; the
  success constructor sets the error flag false and the error constructor sets it
  true. The two HTTP endpoints do not produce this envelope: the body of
  configuration retrieval is a success flag with the configuration on status 200 and
  a success flag with an error message otherwise, and the body of combined processing
  is a success flag with the result and the configuration used on status 200 and a
  success flag with an error message on status 503 or 500.
\<close>

theorem envelope_four_fields_constructors:
  "dict_keys (to_dict (success result message)) = envelope_fields
   \<and> dict_keys (to_dict (error error_code message result)) = envelope_fields
   \<and> to_dict (success result message) =
       JObj [(''EsError'', JBool False), (''ErrorCode'', JStr ''0''),
             (''Message'', message), (''Result'', result)]
   \<and> to_dict (error error_code message result) =
       JObj [(''EsError'', JBool True), (''ErrorCode'', error_code),
             (''Message'', message), (''Result'', result)]
   \<and> (get_node_config cfg requests_get = Inr (b, st) \<longrightarrow>
        (\<exists>j. b = JObj [(''success'', JBool True), (''node_config'', j)] \<and> st = 200)
      \<or> (\<exists>m. b = JObj [(''success'', JBool False), (''error'', JStr m)] \<and> st \<noteq> 200))
   \<and> (combined_process cfg requests_get req = Inr (b', st') \<longrightarrow>
        (\<exists>r j. b' = JObj [(''success'', JBool True), (''result'', r), (''node_config_used'', j)]
               \<and> st' = 200)
      \<or> (\<exists>m. b' = JObj [(''success'', JBool False), (''error'', JStr m)]
             \<and> (st' = 503 \<or> st' = 500)))"
proof -
  have e: "dict_keys (to_dict (success result message)) = envelope_fields
   \<and> dict_keys (to_dict (error error_code message result)) = envelope_fields
   \<and> to_dict (success result message) =
       JObj [(''EsError'', JBool False), (''ErrorCode'', JStr ''0''),
             (''Message'', message), (''Result'', result)]
   \<and> to_dict (error error_code message result) =
       JObj [(''EsError'', JBool True), (''ErrorCode'', error_code),
             (''Message'', message), (''Result'', result)]"
    by (simp add: to_dict_def success_def error_def MKTResponse_init_def envelope_fields_def)
  show ?thesis
    using e get_node_config_shapes [of cfg requests_get b st]
      combined_process_shapes [of cfg requests_get req b' st']
    by blast
qed

theorem endpoint_body_not_envelope:
  "get_node_config example_config (example_upstream 200 (JObj [])) =
     Inr (JObj [(''success'', JBool True), (''node_config'', JObj [])], 200)
   \<and> dict_keys (JObj [(''success'', JBool True), (''node_config'', JObj [])]) \<noteq> envelope_fields
   \<and> get_node_config example_config (example_upstream 404 JNull) =
     Inr (JObj [(''success'', JBool False),
                (''error'', JStr (''Node.js respondi'' @ [CHR 0xF3] @ '' con status 404''))], 404)
   \<and> dict_keys (JObj [(''success'', JBool False),
                (''error'', JStr (''Node.js respondi'' @ [CHR 0xF3] @ '' con status 404''))])
       \<noteq> envelope_fields"
  by (simp add: get_node_config_def get_node_config_try_def config_getitem_def example_config_def
      example_upstream_def envelope_fields_def str_int_def str_nat.simps digit_char_def)

theorem envelope_four_fields_constructors_witness:
  "get_node_config example_config (example_upstream 200 (JObj [])) =
     Inr (JObj [(''success'', JBool True), (''node_config'', JObj [])], 200)
   \<and> combined_process example_config (example_upstream 200 (JObj [])) (example_request (JObj [])) =
     Inr (JObj [(''success'', JBool True),
                (''result'',
                   JObj [(''data'', JObj []),
                         (''max_items_allowed'', JInt 100),
                         (''items_processed'', JInt 0),
                         (''within_limits'', JBool True)]),
                (''node_config_used'', JObj [])], 200)
   \<and> dict_keys (to_dict (success (JStr ''OK'') success_message)) = envelope_fields
   \<and> dict_keys (to_dict (error (JInt (- 1)) success_message (JStr ''OK''))) = envelope_fields"
proof -
  have g: "get_node_config example_config (example_upstream 200 (JObj [])) =
     Inr (JObj [(''success'', JBool True), (''node_config'', JObj [])], 200)"
    by (simp add: get_node_config_def get_node_config_try_def config_getitem_def
        example_config_def example_upstream_def)
  have c: "combined_process example_config (example_upstream 200 (JObj [])) (example_request (JObj [])) =
     Inr (JObj [(''success'', JBool True),
                (''result'',
                   JObj [(''data'', JObj []),
                         (''max_items_allowed'', JInt 100),
                         (''items_processed'', JInt 0),
                         (''within_limits'', JBool True)]),
                (''node_config_used'', JObj [])], 200)"
    by (simp add: combined_process_def combined_process_try_def config_getitem_def
        example_config_def example_upstream_def example_request_def items_len_def)
  show ?thesis
    using g c
      envelope_four_fields_constructors
        [where result = "JStr ''OK''" and message = success_message
           and error_code = "JInt (- 1)"
           and cfg = example_config and requests_get = "example_upstream 200 (JObj [])"
           and b = "JObj [(''success'', JBool True), (''node_config'', JObj [])]" and st = 200
           and req = "example_request (JObj [])"
           and b' = "JObj [(''success'', JBool True),
                (''result'',
                   JObj [(''data'', JObj []),
                         (''max_items_allowed'', JInt 100),
                         (''items_processed'', JInt 0),
                         (''within_limits'', JBool True)]),
                (''node_config_used'', JObj [])]" and st' = 200]
    by blast
qed

section \<open>Exceptions that leave a view\<close>

lemma handle_user_exception_fst:
  "fst (handle_user_exception req e s) = fst (handle_user_exception req e s')"
  by (simp add: handle_user_exception_def internal_error_def handle_exception_def)

lemma handle_request_fst:
  "fst (handle_request ep cfg requests_get req s) =
     after_request (make_response
       (case view ep cfg requests_get req of
          Inl e \<Rightarrow> fst (handle_user_exception req e s)
        | Inr r \<Rightarrow> r))"
  by (simp add: handle_request_def Let_def case_prod_unfold
      handle_user_exception_fst [of req _ "log_request req s" s] split: sum.splits)

text \<open>
  Claim C7, amended. The generic exception handler answers every exception with the
  failure indicator, HTTP 500 and one fixed message, whatever the exception's text.
  Every exception that leaves a view, other than an HTTP error 404 or 500, which have
  handlers of their own, is answered by it. The combined-process endpoint lets no
  exception leave: it catches every exception itself, those raised on malformed local
  input included, and answers with the failure indicator, HTTP 500 and the
  exception's own text as the message.
\<close>

theorem uncaught_exception_generic_message:
  "fst (handle_exception e s) =
     (JObj [(''success'', JBool False), (''error'', JStr ''Error inesperado en el servidor'')], 500)
   \<and> (view ep cfg requests_get req = Inl e
        \<and> exn_class e \<noteq> HTTPException 404 \<and> exn_class e \<noteq> HTTPException 500 \<longrightarrow>
        body (fst (handle_request ep cfg requests_get req s)) =
          JObj [(''success'', JBool False), (''error'', JStr ''Error inesperado en el servidor'')]
        \<and> status (fst (handle_request ep cfg requests_get req s)) = 500)
   \<and> (\<exists>r. combined_process cfg requests_get req = Inr r)
   \<and> (combined_process_try cfg requests_get req = Inl e' \<longrightarrow>
        combined_process cfg requests_get req =
          Inr (JObj [(''success'', JBool False), (''error'', JStr (str_e e'))], 500))"
proof -
  have h: "fst (handle_exception e s) =
     (JObj [(''success'', JBool False), (''error'', JStr ''Error inesperado en el servidor'')], 500)"
    by (simp add: handle_exception_def generic_message_def)
  have v: "view ep cfg requests_get req = Inl e
        \<and> exn_class e \<noteq> HTTPException 404 \<and> exn_class e \<noteq> HTTPException 500 \<longrightarrow>
        body (fst (handle_request ep cfg requests_get req s)) =
          JObj [(''success'', JBool False), (''error'', JStr ''Error inesperado en el servidor'')]
        \<and> status (fst (handle_request ep cfg requests_get req s)) = 500"
    by (simp add: handle_request_fst handle_user_exception_def h after_request_def
        make_response_def)
  have c: "combined_process_try cfg requests_get req = Inl e' \<longrightarrow>
        combined_process cfg requests_get req =
          Inr (JObj [(''success'', JBool False), (''error'', JStr (str_e e'))], 500)"
    by (simp add: combined_process_def)
  show ?thesis
    using h v c combined_process_total [of cfg requests_get req] by blast
qed

theorem combined_process_answers_exception_text:
  "combined_process example_config (example_upstream 200 (JObj [])) (example_request (JArr [])) =
     Inr (JObj [(''success'', JBool False),
                (''error'', JStr (quoted ''list'' @ '' object has no attribute '' @ quoted ''get''))],
          500)
   \<and> quoted ''list'' @ '' object has no attribute '' @ quoted ''get''
        \<noteq> ''Error inesperado en el servidor''"
  by (simp add: combined_process_def combined_process_try_def config_getitem_def example_config_def
      example_upstream_def example_request_def items_len_def no_attribute_def quoted_def)

theorem uncaught_exception_generic_message_witness:
  "view GetNodeConfig Map.empty (example_upstream 200 JNull) (example_request JNull)
     = Inl (Exn KeyError (quoted ''NODE_API_URL''))
   \<and> body (fst (handle_request GetNodeConfig Map.empty (example_upstream 200 JNull)
                   (example_request JNull) create_app)) =
       JObj [(''success'', JBool False), (''error'', JStr ''Error inesperado en el servidor'')]
   \<and> combined_process_try Map.empty (example_upstream 200 JNull) (example_request JNull)
     = Inl (Exn KeyError (quoted ''NODE_API_URL''))
   \<and> combined_process Map.empty (example_upstream 200 JNull) (example_request JNull) =
       Inr (JObj [(''success'', JBool False), (''error'', JStr (quoted ''NODE_API_URL''))], 500)"
proof -
  have a: "view GetNodeConfig Map.empty (example_upstream 200 JNull) (example_request JNull)
     = Inl (Exn KeyError (quoted ''NODE_API_URL''))"
    by (simp add: view_def get_node_config_def get_node_config_try_def config_getitem_def)
  have b: "combined_process_try Map.empty (example_upstream 200 JNull) (example_request JNull)
     = Inl (Exn KeyError (quoted ''NODE_API_URL''))"
    by (simp add: combined_process_try_def config_getitem_def example_request_def)
  show ?thesis
    using a b
      uncaught_exception_generic_message
        [where ep = GetNodeConfig and cfg = Map.empty
           and requests_get = "example_upstream 200 JNull"
           and req = "example_request JNull" and e = "Exn KeyError (quoted ''NODE_API_URL'')"
           and e' = "Exn KeyError (quoted ''NODE_API_URL'')" and s = create_app]
    by simp
qed

end
